theory Spec2Isabelle
  imports Main "HOL-Library.Word"
begin

section \<open>Values and errors of the persistence layer\<close>

text \<open>
  \<^verbatim>\<open>common.Hash\<close> is a 32-byte value. Heights are \<^verbatim>\<open>uint64\<close> in the block
  table and \<^verbatim>\<open>int64\<close> in the pruning interface; both are 64-bit words here, since
  the code only stores and compares them.
\<close>

type_synonym Hash = "256 word"

text \<open>
  A Go \<^verbatim>\<open>error\<close> is a value of the datatype below, \<^verbatim>\<open>nil\<close> is \<open>None\<close>.
  \<open>ErrNoRows\<close> is \<^verbatim>\<open>sql.ErrNoRows\<close>; \<open>ErrRecordNotFound\<close> and \<open>ErrEmptySlice\<close>
  are the errors of the mapping library that \<^verbatim>\<open>database.go\<close> imports;
  \<open>ErrTxDone\<close> and \<open>ErrInFailedTx\<close> are what a finished or an aborted
  transaction answers; \<open>ErrBackend\<close> is any other failure the store reports for a
  statement; \<open>ErrNew\<close> is \<^verbatim>\<open>errors.New\<close>.
\<close>

datatype error =
    ErrNoRows
  | ErrRecordNotFound
  | ErrEmptySlice
  | ErrTxDone
  | ErrInFailedTx
  | ErrBackend string
  | ErrNew string

text \<open>\<^verbatim>\<open>errIsNotFound\<close> of \<^verbatim>\<open>database.go\<close>.\<close>

fun errIsNotFound :: "error option \<Rightarrow> bool" where
  "errIsNotFound (Some ErrNoRows) = True"
| "errIsNotFound (Some ErrRecordNotFound) = True"
| "errIsNotFound _ = False"

section \<open>Rows and tables\<close>

text \<open>
  Modelled from the spec: the row types of package \<^verbatim>\<open>models\<close> other than
  \<^verbatim>\<open>DataStat\<close> are declared elsewhere in the repository. Each record below has
  the columns that the functions of \<^verbatim>\<open>database.go\<close> and of the permission
  module name (conflict targets, \<^verbatim>\<open>WHERE\<close> columns, assigned fields); a field
  whose name ends in \<open>Rest\<close> stands for all the remaining columns that an entity
  value carries, uninterpreted. A row is identified by its natural key; a surrogate
  key that the store assigns on insert, and that no upsert here assigns, is no column
  of these records.
\<close>

record Block =
  blk_Hash :: Hash
  blk_Height :: "64 word"
  blk_Rest :: string

record Bucket =
  bkt_BucketID :: Hash
  bkt_Rest :: string

record Object =
  obj_ObjectID :: Hash
  obj_Removed :: bool
  obj_Rest :: string

record Epoch =
  OneRowId :: bool
  BlockHeight :: "64 word"
  BlockHash :: Hash
  UpdateTime :: "64 word"

record Permission =
  PrincipalType :: "32 word"
  PrincipalValue :: string
  ResourceType :: string
  ResourceID :: Hash
  PolicyID :: Hash
  CreateTimestamp :: int
  UpdateTimestamp :: int
  ExpirationTime :: int
  Removed :: bool

record Statements =
  st_PolicyID :: Hash
  st_Effect :: string
  st_ActionValue :: int
  st_ExpirationTime :: int
  st_LimitSize :: "64 word"
  st_Resources :: "string list"
  st_Removed :: bool

text \<open>\<^verbatim>\<open>types.CommitSig\<close>, with the five columns \<^verbatim>\<open>SaveCommitSignatures\<close> inserts.\<close>

record CommitSig =
  ValidatorAddress :: string
  cs_Height :: "64 word"
  cs_Timestamp :: int
  VotingPower :: int
  ProposerPriority :: int

text \<open>The rows of tables \<^verbatim>\<open>transaction\<close> and \<^verbatim>\<open>message\<close> that \<^verbatim>\<open>Prune\<close> joins.\<close>

record TransactionRow =
  tx_hash :: Hash
  tx_height :: "64 word"

record MessageRow =
  transaction_hash :: Hash
  msg_Rest :: string

text \<open>\<^verbatim>\<open>models.DataStat\<close>, as declared.\<close>

record DataStat =
  ds_OneRowId :: bool
  ds_BlockHeight :: "64 word"
  ObjectTotalCount :: string
  ObjectSealCount :: string
  ObjectDelCount :: string
  ds_UpdateTime :: "64 word"

text \<open>
  The relational store behind \<^verbatim>\<open>Impl.Db\<close>: one list of rows per table, in
  insertion order.
\<close>

record database =
  blocks :: "Block list"
  buckets :: "Bucket list"
  objects :: "Object list"
  epoch :: "Epoch list"
  permission :: "Permission list"
  statements :: "Statements list"
  pre_commit :: "CommitSig list"
  transaction :: "TransactionRow list"
  message :: "MessageRow list"
  pruning :: "64 word list"
  data_stat :: "DataStat list"

definition empty_database :: database where
  "empty_database = \<lparr>blocks = [], buckets = [], objects = [], epoch = [], permission = [],
     statements = [], pre_commit = [], transaction = [], message = [], pruning = [],
     data_stat = []\<rparr>"

section \<open>Executing one statement\<close>

text \<open>
  Every call of the mapping library ends in one statement sent to the store, and its
  \<^verbatim>\<open>.Error\<close> is what the store answered. The answer is an argument of the model:
  \<open>None\<close> when the statement ran, \<open>Some e\<close> when the store reported \<open>e\<close>, and then
  the statement changed nothing. A cancelled \<^verbatim>\<open>context.Context\<close> is one cause of
  such an answer, which is why the context is no argument of its own.
\<close>

definition Exec :: "error option \<Rightarrow> (database \<Rightarrow> database) \<Rightarrow> database \<Rightarrow> error option \<times> database" where
  "Exec r stmt db = (case r of None \<Rightarrow> (None, stmt db) | Some e \<Rightarrow> (Some e, db))"

section \<open>Blocks\<close>

text \<open>
  \<^verbatim>\<open>Take\<close> into a scalar: the first row of the result, \<open>ErrRecordNotFound\<close> when
  the result is empty; on an error the destination keeps its zero value.
\<close>

definition Take :: "error option \<Rightarrow> 64 word list \<Rightarrow> 64 word \<times> error option" where
  "Take r rows =
     (case r of
        Some e \<Rightarrow> (0, Some e)
      | None \<Rightarrow> (case rows of [] \<Rightarrow> (0, Some ErrRecordNotFound) | h # _ \<Rightarrow> (h, None)))"

definition GetLastBlockHeight :: "error option \<Rightarrow> database \<Rightarrow> 64 word \<times> error option" where
  "GetLastBlockHeight r db =
     (let (height, err) = Take r (rev (sort (map blk_Height (blocks db))))
      in if errIsNotFound err then (0, None) else (height, err))"

section \<open>Pruning\<close>

definition delete_from_pruning :: "database \<Rightarrow> database" where
  "delete_from_pruning db = db\<lparr>pruning := []\<rparr>"

definition insert_into_pruning :: "64 word \<Rightarrow> database \<Rightarrow> database" where
  "insert_into_pruning height db = db\<lparr>pruning := pruning db @ [height]\<rparr>"

definition StoreLastPruned ::
  "error option \<Rightarrow> error option \<Rightarrow> 64 word \<Rightarrow> database \<Rightarrow> error option \<times> database" where
  "StoreLastPruned r1 r2 height db =
     (let (err, db1) = Exec r1 delete_from_pruning db
      in if err \<noteq> None then (err, db1)
         else Exec r2 (insert_into_pruning height) db1)"

text \<open>\<^verbatim>\<open>SELECT coalesce(MAX(last_pruned_height),0) FROM pruning LIMIT 1\<close>, compared as \<^verbatim>\<open>int64\<close>.\<close>

definition max_signed :: "64 word list \<Rightarrow> 64 word option" where
  "max_signed hs = fold (\<lambda>h acc. case acc of None \<Rightarrow> Some h
                                   | Some m \<Rightarrow> Some (if sint m < sint h then h else m)) hs None"

definition GetLastPruned :: "error option \<Rightarrow> database \<Rightarrow> 64 word \<times> error option" where
  "GetLastPruned r db =
     (case r of
        Some e \<Rightarrow> (0, Some e)
      | None \<Rightarrow> (case max_signed (pruning db) of None \<Rightarrow> (0, None) | Some m \<Rightarrow> (m, None)))"

text \<open>
  \<^verbatim>\<open>Prune\<close>: \<^verbatim>\<open>DELETE FROM pre_commit WHERE height = $1\<close>, then
  \<^verbatim>\<open>DELETE FROM message USING transaction WHERE message.transaction_hash =
  transaction.hash AND transaction.height = $1\<close>.
\<close>

definition delete_pre_commit :: "64 word \<Rightarrow> database \<Rightarrow> database" where
  "delete_pre_commit height db =
     db\<lparr>pre_commit := filter (\<lambda>c. cs_Height c \<noteq> height) (pre_commit db)\<rparr>"

definition parent_at :: "64 word \<Rightarrow> TransactionRow list \<Rightarrow> MessageRow \<Rightarrow> bool" where
  "parent_at height txs m =
     list_ex (\<lambda>t. transaction_hash m = tx_hash t \<and> tx_height t = height) txs"

definition delete_message :: "64 word \<Rightarrow> database \<Rightarrow> database" where
  "delete_message height db =
     db\<lparr>message := filter (\<lambda>m. \<not> parent_at height (transaction db) m) (message db)\<rparr>"

definition Prune ::
  "error option \<Rightarrow> error option \<Rightarrow> 64 word \<Rightarrow> database \<Rightarrow> error option \<times> database" where
  "Prune r1 r2 height db =
     (let (err, db1) = Exec r1 (delete_pre_commit height) db
      in if err \<noteq> None then (err, db1)
         else Exec r2 (delete_message height) db1)"

section \<open>Objects\<close>

definition zero_Object :: Object where
  "zero_Object = \<lparr>obj_ObjectID = 0, obj_Removed = False, obj_Rest = []\<rparr>"

text \<open>
  \<^verbatim>\<open>Find\<close> into one struct: the first row of the result is scanned into the
  destination; an empty result is no error and leaves the destination at its zero
  value (only \<^verbatim>\<open>First\<close>, \<^verbatim>\<open>Take\<close> and \<^verbatim>\<open>Last\<close> raise
  \<open>ErrRecordNotFound\<close>).
\<close>

definition Find :: "error option \<Rightarrow> Object list \<Rightarrow> Object \<times> error option" where
  "Find r rows =
     (case r of
        Some e \<Rightarrow> (zero_Object, Some e)
      | None \<Rightarrow> (case rows of [] \<Rightarrow> (zero_Object, None) | x # _ \<Rightarrow> (x, None)))"

text \<open>
  \<^verbatim>\<open>GetObject\<close>: \<^verbatim>\<open>Where("object_id = ? AND removed IS NOT TRUE", objectId).Find(&object)\<close>;
  a nil pointer with the error, or the address of the destination with nil.
\<close>

definition GetObject :: "error option \<Rightarrow> Hash \<Rightarrow> database \<Rightarrow> Object option \<times> error option" where
  "GetObject r objectId db =
     (let (object, err) =
            Find r (filter (\<lambda>row. obj_ObjectID row = objectId \<and> \<not> obj_Removed row) (objects db))
      in if err \<noteq> None then (None, err) else (Some object, None))"

definition sample_objects :: database where
  "sample_objects =
     empty_database\<lparr>objects := [\<lparr>obj_ObjectID = 7, obj_Removed = True, obj_Rest = ''a''\<rparr>,
                                 \<lparr>obj_ObjectID = 8, obj_Removed = False, obj_Rest = ''b''\<rparr>,
                                 \<lparr>obj_ObjectID = 8, obj_Removed = False, obj_Rest = ''c''\<rparr>]\<rparr>"

section \<open>Modules\<close>

text \<open>
  A \<^verbatim>\<open>Module\<close> is any value with a \<^verbatim>\<open>Name()\<close>; the extension of the record is
  whatever else the implementing type holds. \<^verbatim>\<open>strings.EqualFold\<close> belongs to the
  Go library and is an argument of \<open>FindByName\<close>. The loop returns at the first
  match; past the end of the slice it returns nil and false.
\<close>

record Module =
  Name :: string

fun FindByName ::
  "(string \<Rightarrow> string \<Rightarrow> bool) \<Rightarrow> 'a Module_scheme list \<Rightarrow> string \<Rightarrow> 'a Module_scheme option \<times> bool" where
  "FindByName EqualFold [] name = (None, False)"
| "FindByName EqualFold (m # ms) name =
     (if EqualFold (Name m) name then (Some m, True) else FindByName EqualFold ms name)"

text \<open>
  What \<^verbatim>\<open>strings.EqualFold\<close> computes when both strings are ASCII: equal lengths,
  and at every position equal bytes or the two cases of one letter. Outside ASCII
  \<^verbatim>\<open>strings.EqualFold\<close> folds further runes, which this function does not; it is
  applied to ASCII names only.
\<close>

definition lower_ascii :: "char \<Rightarrow> nat" where
  "lower_ascii c = (let n = of_char c in if 65 \<le> n \<and> n \<le> 90 then n + 32 else n)"

definition EqualFold_ascii :: "string \<Rightarrow> string \<Rightarrow> bool" where
  "EqualFold_ascii s t = (map lower_ascii s = map lower_ascii t)"

section \<open>Upserts\<close>

text \<open>
  The two SQL dialects the sources are written against: the raw statements of the
  pruning functions are PostgreSQL, the column types of \<^verbatim>\<open>DataStat\<close> are MySQL.
\<close>

datatype dialect = MySQL | PostgreSQL

text \<open>
  \<^verbatim>\<open>SaveBucket\<close>: \<^verbatim>\<open>ON CONFLICT (bucket_id)\<close> with \<^verbatim>\<open>UpdateAll\<close>. A row with
  the bucket id of the new value takes every column of the new value; without such a
  row the value is inserted.
\<close>

definition upsert_bucket :: "Bucket \<Rightarrow> Bucket list \<Rightarrow> Bucket list" where
  "upsert_bucket b rows =
     (if list_ex (\<lambda>row. bkt_BucketID row = bkt_BucketID b) rows
      then map (\<lambda>row. if bkt_BucketID row = bkt_BucketID b then b else row) rows
      else rows @ [b])"

definition SaveBucket :: "error option \<Rightarrow> Bucket \<Rightarrow> database \<Rightarrow> error option \<times> database" where
  "SaveBucket r bucket db = Exec r (\<lambda>d. d\<lparr>buckets := upsert_bucket bucket (buckets d)\<rparr>) db"

text \<open>
  \<^verbatim>\<open>SaveBlock\<close> passes two conflict clauses, on \<^verbatim>\<open>hash\<close> and on \<^verbatim>\<open>height\<close>,
  both columns being unique. The second clause replaces the first, so PostgreSQL
  resolves a conflict on \<^verbatim>\<open>height\<close> only and reports a duplicate \<^verbatim>\<open>hash\<close>; MySQL
  ignores the conflict target and updates the row that collides on either column.
  In both, an update that would give two rows the same hash is refused. \<open>None\<close> is
  the refusal.
\<close>

definition upsert_block :: "dialect \<Rightarrow> Block \<Rightarrow> Block list \<Rightarrow> Block list option" where
  "upsert_block dl b rows =
     (if list_ex (\<lambda>row. blk_Height row = blk_Height b) rows
      then (if list_ex (\<lambda>row. blk_Hash row = blk_Hash b \<and> blk_Height row \<noteq> blk_Height b) rows
            then None
            else Some (map (\<lambda>row. if blk_Height row = blk_Height b then b else row) rows))
      else if list_ex (\<lambda>row. blk_Hash row = blk_Hash b) rows
      then (case dl of
              PostgreSQL \<Rightarrow> None
            | MySQL \<Rightarrow> Some (map (\<lambda>row. if blk_Hash row = blk_Hash b then b else row) rows))
      else Some (rows @ [b]))"

definition SaveBlock :: "dialect \<Rightarrow> error option \<Rightarrow> Block \<Rightarrow> database \<Rightarrow> error option \<times> database" where
  "SaveBlock dl r block db =
     (case r of
        Some e \<Rightarrow> (Some e, db)
      | None \<Rightarrow>
          (case upsert_block dl block (blocks db) of
             None \<Rightarrow> (Some (ErrBackend ''duplicate key''), db)
           | Some rows \<Rightarrow> (None, db\<lparr>blocks := rows\<rparr>)))"

definition one_block :: database where
  "one_block = empty_database\<lparr>blocks := [\<lparr>blk_Hash = 10, blk_Height = 1, blk_Rest = ''old''\<rparr>]\<rparr>"

definition two_blocks :: database where
  "two_blocks = empty_database\<lparr>blocks := [\<lparr>blk_Hash = 10, blk_Height = 1, blk_Rest = ''old''\<rparr>,
                                         \<lparr>blk_Hash = 12, blk_Height = 2, blk_Rest = ''two''\<rparr>]\<rparr>"

text \<open>
  Modelled from the spec: \<^verbatim>\<open>models.Epoch\<close> is declared elsewhere in the
  repository. Its key is the fixed synthetic key of a single-row table, declared like
  \<^verbatim>\<open>DataStat.OneRowId\<close> (a boolean primary key with default true), so that an
  inserted value always carries the key \<open>True\<close>: the zero value is replaced by the
  default. The extension of the record is every further column the row may have.

  \<^verbatim>\<open>SaveEpoch\<close>: \<^verbatim>\<open>ON CONFLICT (one_row_id)\<close> assigning \<^verbatim>\<open>block_height\<close>,
  \<^verbatim>\<open>block_hash\<close> and \<^verbatim>\<open>update_time\<close>.
\<close>

definition upsert_epoch :: "'a Epoch_scheme \<Rightarrow> 'a Epoch_scheme list \<Rightarrow> 'a Epoch_scheme list" where
  "upsert_epoch e rows =
     (let new = (if OneRowId e then e else e\<lparr>OneRowId := True\<rparr>)
      in if list_ex (\<lambda>row. OneRowId row = OneRowId new) rows
         then map (\<lambda>row. if OneRowId row = OneRowId new
                          then row\<lparr>BlockHeight := BlockHeight new, BlockHash := BlockHash new,
                                   UpdateTime := UpdateTime new\<rparr>
                          else row) rows
         else rows @ [new])"

definition SaveEpoch :: "error option \<Rightarrow> Epoch \<Rightarrow> database \<Rightarrow> error option \<times> database" where
  "SaveEpoch r e db = Exec r (\<lambda>d. d\<lparr>epoch := upsert_epoch e (epoch d)\<rparr>) db"

section \<open>Permissions and statements\<close>

text \<open>
  Modelled from the spec: \<^verbatim>\<open>common.BigToHash\<close> is defined elsewhere in the
  repository; it is taken as the 32-byte big-endian form of the integer, reduced to
  its low 256 bits. The policy and resource ids of an event are unsigned integers.
\<close>

definition BigToHash :: "nat \<Rightarrow> Hash" where
  "BigToHash n = of_nat n"

text \<open>
  \<^verbatim>\<open>SavePermission\<close>: \<^verbatim>\<open>ON CONFLICT (principal_type, principal_value,
  resource_type, resource_id)\<close> with \<^verbatim>\<open>UpdateAll\<close>.
\<close>

definition same_permission_key :: "Permission \<Rightarrow> Permission \<Rightarrow> bool" where
  "same_permission_key p row =
     (PrincipalType row = PrincipalType p \<and> PrincipalValue row = PrincipalValue p \<and>
      ResourceType row = ResourceType p \<and> ResourceID row = ResourceID p)"

definition upsert_permission :: "Permission \<Rightarrow> Permission list \<Rightarrow> Permission list" where
  "upsert_permission p rows =
     (if list_ex (same_permission_key p) rows
      then map (\<lambda>row. if same_permission_key p row then p else row) rows
      else rows @ [p])"

definition SavePermission :: "error option \<Rightarrow> Permission \<Rightarrow> database \<Rightarrow> error option \<times> database" where
  "SavePermission r p db = Exec r (\<lambda>d. d\<lparr>permission := upsert_permission p (permission d)\<rparr>) db"

text \<open>
  \<^verbatim>\<open>UpdatePermission\<close>: \<^verbatim>\<open>Where("policy_id = ?", permission.PolicyID).Updates(permission)\<close>.
  \<^verbatim>\<open>Updates\<close> with a struct assigns the fields that are not at their zero value
  and leaves the other columns of every matching row; no matching row is no error.
\<close>

definition Updates :: "Permission \<Rightarrow> Permission \<Rightarrow> Permission" where
  "Updates p row =
     \<lparr>PrincipalType = (if PrincipalType p \<noteq> 0 then PrincipalType p else PrincipalType row),
      PrincipalValue = (if PrincipalValue p \<noteq> [] then PrincipalValue p else PrincipalValue row),
      ResourceType = (if ResourceType p \<noteq> [] then ResourceType p else ResourceType row),
      ResourceID = (if ResourceID p \<noteq> 0 then ResourceID p else ResourceID row),
      PolicyID = (if PolicyID p \<noteq> 0 then PolicyID p else PolicyID row),
      CreateTimestamp = (if CreateTimestamp p \<noteq> 0 then CreateTimestamp p else CreateTimestamp row),
      UpdateTimestamp = (if UpdateTimestamp p \<noteq> 0 then UpdateTimestamp p else UpdateTimestamp row),
      ExpirationTime = (if ExpirationTime p \<noteq> 0 then ExpirationTime p else ExpirationTime row),
      Removed = (if Removed p then True else Removed row)\<rparr>"

definition UpdatePermission :: "error option \<Rightarrow> Permission \<Rightarrow> database \<Rightarrow> error option \<times> database" where
  "UpdatePermission r p db =
     Exec r (\<lambda>d. d\<lparr>permission := map (\<lambda>row. if PolicyID row = PolicyID p then Updates p row else row)
                                     (permission d)\<rparr>) db"

text \<open>
  \<^verbatim>\<open>MultiSaveStatement\<close>: one batch insert. For an empty slice \<^verbatim>\<open>Create\<close> reports
  \<open>ErrEmptySlice\<close> and sends no statement.
\<close>

definition MultiSaveStatement ::
  "error option \<Rightarrow> Statements list \<Rightarrow> database \<Rightarrow> error option \<times> database" where
  "MultiSaveStatement r stmts db =
     (if stmts = [] then (Some ErrEmptySlice, db)
      else Exec r (\<lambda>d. d\<lparr>statements := statements d @ stmts\<rparr>) db)"

text \<open>\<^verbatim>\<open>RemoveStatements\<close>: \<^verbatim>\<open>Where("policy_id = ?", policyID).Update("removed", true)\<close>.\<close>

definition RemoveStatements :: "error option \<Rightarrow> Hash \<Rightarrow> database \<Rightarrow> error option \<times> database" where
  "RemoveStatements r policyID db =
     Exec r (\<lambda>d. d\<lparr>statements := map (\<lambda>row. if st_PolicyID row = policyID
                                                then row\<lparr>st_Removed := True\<rparr> else row)
                                     (statements d)\<rparr>) db"

section \<open>Transaction scopes\<close>

text \<open>
  \<^verbatim>\<open>Begin\<close> returns an \<^verbatim>\<open>Impl\<close> bound to one transaction of the store. \<open>visible\<close>
  is the committed state, the one every reader outside the scope sees; \<open>pending\<close> is
  the state inside the scope. \<open>finished\<close> holds once \<^verbatim>\<open>Commit\<close> or \<^verbatim>\<open>Rollback\<close>
  has been called. \<open>aborted\<close> is PostgreSQL's failed-transaction state.
\<close>

record Tx =
  visible :: database
  pending :: database
  aborted :: bool
  finished :: bool

definition Begin :: "database \<Rightarrow> Tx" where
  "Begin db = \<lparr>visible = db, pending = db, aborted = False, finished = False\<rparr>"

text \<open>
  A method of \<^verbatim>\<open>Impl\<close> called on the scoped handle runs against the pending state.
  A statement that fails has no effect of its own. On MySQL the transaction stays
  open after it; on PostgreSQL the transaction is aborted and refuses every later
  statement. \<open>ErrEmptySlice\<close> is raised before any statement is sent and aborts
  nothing.
\<close>

definition in_tx :: "dialect \<Rightarrow> (database \<Rightarrow> error option \<times> database) \<Rightarrow> Tx \<Rightarrow> error option \<times> Tx" where
  "in_tx dl method tx =
     (if finished tx then (Some ErrTxDone, tx)
      else if aborted tx then (Some ErrInFailedTx, tx)
      else (case method (pending tx) of
              (None, d) \<Rightarrow> (None, tx\<lparr>pending := d\<rparr>)
            | (Some e, d) \<Rightarrow>
                (Some e, tx\<lparr>pending := d, aborted := (dl = PostgreSQL \<and> e \<noteq> ErrEmptySlice)\<rparr>)))"

text \<open>
  \<^verbatim>\<open>Commit\<close> publishes the pending state. Committing an aborted transaction rolls
  it back and reports an error; a commit the store refuses publishes nothing.
  \<^verbatim>\<open>Rollback\<close> discards the pending state, and does nothing on a finished
  transaction.
\<close>

definition Commit :: "error option \<Rightarrow> Tx \<Rightarrow> error option \<times> Tx" where
  "Commit r tx =
     (if finished tx then (Some ErrTxDone, tx)
      else if aborted tx then (Some ErrInFailedTx, tx\<lparr>pending := visible tx, finished := True\<rparr>)
      else (case r of
              Some e \<Rightarrow> (Some e, tx\<lparr>pending := visible tx, finished := True\<rparr>)
            | None \<Rightarrow> (None, tx\<lparr>visible := pending tx, finished := True\<rparr>)))"

definition Rollback :: "Tx \<Rightarrow> Tx" where
  "Rollback tx = (if finished tx then tx else tx\<lparr>pending := visible tx, finished := True\<rparr>)"

section \<open>The permission module\<close>

text \<open>
  The action types that are keys of \<^verbatim>\<open>actionTypeMap\<close>; \<open>ACTION_OTHER\<close> is any
  value of the enumeration that is not a key.
\<close>

datatype ActionType =
    ACTION_TYPE_ALL
  | ACTION_UPDATE_BUCKET_INFO
  | ACTION_DELETE_BUCKET
  | ACTION_CREATE_OBJECT
  | ACTION_DELETE_OBJECT
  | ACTION_COPY_OBJECT
  | ACTION_GET_OBJECT
  | ACTION_EXECUTE_OBJECT
  | ACTION_LIST_OBJECT
  | ACTION_UPDATE_GROUP_MEMBER
  | ACTION_DELETE_GROUP
  | ACTION_UPDATE_OBJECT_INFO
  | ACTION_OTHER "32 word"

fun actionTypeMap :: "ActionType \<Rightarrow> nat option" where
  "actionTypeMap ACTION_TYPE_ALL = Some 0"
| "actionTypeMap ACTION_UPDATE_BUCKET_INFO = Some 1"
| "actionTypeMap ACTION_DELETE_BUCKET = Some 2"
| "actionTypeMap ACTION_CREATE_OBJECT = Some 3"
| "actionTypeMap ACTION_DELETE_OBJECT = Some 4"
| "actionTypeMap ACTION_COPY_OBJECT = Some 5"
| "actionTypeMap ACTION_GET_OBJECT = Some 6"
| "actionTypeMap ACTION_EXECUTE_OBJECT = Some 7"
| "actionTypeMap ACTION_LIST_OBJECT = Some 8"
| "actionTypeMap ACTION_UPDATE_GROUP_MEMBER = Some 9"
| "actionTypeMap ACTION_DELETE_GROUP = Some 10"
| "actionTypeMap ACTION_UPDATE_OBJECT_INFO = Some 11"
| "actionTypeMap (ACTION_OTHER _) = None"

text \<open>
  The events, with the fields the handlers read. Enumerations that are only rendered
  with \<^verbatim>\<open>String()\<close> are carried as the rendered string, times as Unix seconds, a
  field the handler tests against nil as an option. The principal, which the handler
  dereferences without a test, is present in every event.
\<close>

record Statement =
  stm_Effect :: string
  stm_Actions :: "ActionType list"
  stm_Resources :: "string list"
  stm_ExpirationTime :: "int option"
  stm_LimitSize :: "64 word option"

record EventPutPolicy =
  put_PolicyId :: nat
  put_PrincipalType :: "32 word"
  put_PrincipalValue :: string
  put_ResourceType :: string
  put_ResourceId :: nat
  put_Statements :: "Statement list"
  put_ExpirationTime :: "int option"

record EventDeletePolicy =
  del_PolicyId :: nat

text \<open>
  The inner loop of \<^verbatim>\<open>handlePutPolicy\<close>: \<^verbatim>\<open>actionValue |= 1 << value\<close> for every
  action, \<open>None\<close> at the first action that is no key of the map.
\<close>

fun action_bits :: "ActionType list \<Rightarrow> int \<Rightarrow> int option" where
  "action_bits [] actionValue = Some actionValue"
| "action_bits (action # actions) actionValue =
     (case actionTypeMap action of
        None \<Rightarrow> None
      | Some v \<Rightarrow> action_bits actions (or actionValue (push_bit v 1)))"

text \<open>The outer loop: one row per statement of the event, appended in order.\<close>

fun build_statements :: "Hash \<Rightarrow> Statement list \<Rightarrow> Statements list \<Rightarrow> Statements list option" where
  "build_statements policyID [] stmts = Some stmts"
| "build_statements policyID (statement # rest) stmts =
     (case action_bits (stm_Actions statement) 0 of
        None \<Rightarrow> None
      | Some actionValue \<Rightarrow>
          build_statements policyID rest
            (stmts @
             [\<lparr>st_PolicyID = policyID,
               st_Effect = stm_Effect statement,
               st_ActionValue = actionValue,
               st_ExpirationTime = (case stm_ExpirationTime statement of None \<Rightarrow> 0 | Some t \<Rightarrow> t),
               st_LimitSize = (case stm_LimitSize statement of None \<Rightarrow> 0 | Some v \<Rightarrow> v),
               st_Resources = (if length (stm_Resources statement) \<noteq> 0
                               then stm_Resources statement else []),
               st_Removed = False\<rparr>]))"

text \<open>
  \<^verbatim>\<open>handlePutPolicy\<close>. \<open>r1\<close>, \<open>r2\<close> and \<open>r3\<close> are the store's answers to the
  permission upsert, the statement insert and the commit; \<open>block_time\<close> is
  \<^verbatim>\<open>block.Block.Time.Unix()\<close>. The result is the returned error and the committed
  state of the store after the call.
\<close>

definition handlePutPolicy ::
  "dialect \<Rightarrow> error option \<Rightarrow> error option \<Rightarrow> error option \<Rightarrow> int \<Rightarrow> EventPutPolicy \<Rightarrow> database
     \<Rightarrow> error option \<times> database" where
  "handlePutPolicy dl r1 r2 r3 block_time policy db =
     (let expireTime = (case put_ExpirationTime policy of None \<Rightarrow> 0 | Some t \<Rightarrow> t);
          p = \<lparr>PrincipalType = put_PrincipalType policy,
               PrincipalValue = put_PrincipalValue policy,
               ResourceType = put_ResourceType policy,
               ResourceID = BigToHash (put_ResourceId policy),
               PolicyID = BigToHash (put_PolicyId policy),
               CreateTimestamp = block_time,
               UpdateTimestamp = 0,
               ExpirationTime = expireTime,
               Removed = False\<rparr>
      in case build_statements (BigToHash (put_PolicyId policy)) (put_Statements policy) [] of
           None \<Rightarrow> (Some (ErrNew ''unknown action type action''), db)
         | Some stmts \<Rightarrow>
             (let tx = Begin db;
                  (err1, tx) = in_tx dl (SavePermission r1 p) tx;
                  (err2, tx) = in_tx dl (MultiSaveStatement r2 stmts) tx;
                  (err3, tx) = Commit r3 tx
              in if err1 \<noteq> None \<or> err2 \<noteq> None \<or> err3 \<noteq> None
                 then (Some (ErrNew ''save policy transaction failed''), visible (Rollback tx))
                 else (None, visible tx)))"

text \<open>\<^verbatim>\<open>handleDeletePolicy\<close>, with the same arguments.\<close>

definition handleDeletePolicy ::
  "dialect \<Rightarrow> error option \<Rightarrow> error option \<Rightarrow> error option \<Rightarrow> int \<Rightarrow> EventDeletePolicy \<Rightarrow> database
     \<Rightarrow> error option \<times> database" where
  "handleDeletePolicy dl r1 r2 r3 block_time event db =
     (let tx = Begin db;
          policyIDHash = BigToHash (del_PolicyId event);
          (err1, tx) = in_tx dl (UpdatePermission r1
                          \<lparr>PrincipalType = 0, PrincipalValue = [], ResourceType = [],
                           ResourceID = 0, PolicyID = policyIDHash, CreateTimestamp = 0,
                           UpdateTimestamp = block_time, ExpirationTime = 0, Removed = True\<rparr>) tx;
          (err2, tx) = in_tx dl (RemoveStatements r2 policyIDHash) tx;
          (err3, tx) = Commit r3 tx
      in if err1 \<noteq> None \<or> err2 \<noteq> None \<or> err3 \<noteq> None
         then (Some (ErrNew ''delete policy transaction failed''), visible (Rollback tx))
         else (None, visible tx))"

text \<open>The permission row that \<^verbatim>\<open>handlePutPolicy\<close> builds from an event.\<close>

definition put_permission :: "int \<Rightarrow> EventPutPolicy \<Rightarrow> Permission" where
  "put_permission block_time policy =
     \<lparr>PrincipalType = put_PrincipalType policy,
      PrincipalValue = put_PrincipalValue policy,
      ResourceType = put_ResourceType policy,
      ResourceID = BigToHash (put_ResourceId policy),
      PolicyID = BigToHash (put_PolicyId policy),
      CreateTimestamp = block_time,
      UpdateTimestamp = 0,
      ExpirationTime = (case put_ExpirationTime policy of None \<Rightarrow> 0 | Some t \<Rightarrow> t),
      Removed = False\<rparr>"

text \<open>What the two updates of \<^verbatim>\<open>handleDeletePolicy\<close> do to one row.\<close>

definition mark_permission :: "Hash \<Rightarrow> int \<Rightarrow> Permission \<Rightarrow> Permission" where
  "mark_permission pid t row =
     (if PolicyID row = pid
      then row\<lparr>UpdateTimestamp := (if t \<noteq> 0 then t else UpdateTimestamp row), Removed := True\<rparr>
      else row)"

definition mark_statement :: "Hash \<Rightarrow> Statements \<Rightarrow> Statements" where
  "mark_statement pid row = (if st_PolicyID row = pid then row\<lparr>st_Removed := True\<rparr> else row)"

text \<open>Sample events and rows: policy 5 on a bucket, with one statement allowing reads.\<close>

definition policy_5 :: "Statement list \<Rightarrow> EventPutPolicy" where
  "policy_5 stmts =
     \<lparr>put_PolicyId = 5, put_PrincipalType = 1, put_PrincipalValue = ''0xA'',
      put_ResourceType = ''RESOURCE_TYPE_BUCKET'', put_ResourceId = 9, put_Statements = stmts,
      put_ExpirationTime = None\<rparr>"

definition allow_get :: Statement where
  "allow_get =
     \<lparr>stm_Effect = ''EFFECT_ALLOW'', stm_Actions = [ACTION_GET_OBJECT], stm_Resources = [],
      stm_ExpirationTime = None, stm_LimitSize = None\<rparr>"

definition permission_5 :: Permission where
  "permission_5 =
     \<lparr>PrincipalType = 1, PrincipalValue = ''0xA'', ResourceType = ''RESOURCE_TYPE_BUCKET'',
      ResourceID = 9, PolicyID = 5, CreateTimestamp = 100, UpdateTimestamp = 0,
      ExpirationTime = 0, Removed = False\<rparr>"

definition statement_of :: "Hash \<Rightarrow> bool \<Rightarrow> Statements" where
  "statement_of pid removed =
     \<lparr>st_PolicyID = pid, st_Effect = ''EFFECT_ALLOW'', st_ActionValue = 64, st_ExpirationTime = 0,
      st_LimitSize = 0, st_Resources = [], st_Removed = removed\<rparr>"

definition policy_5_stored :: database where
  "policy_5_stored =
     empty_database\<lparr>permission := [permission_5],
                     statements := [statement_of 5 False, statement_of 6 False]\<rparr>"

section \<open>Statistics\<close>

definition SaveDBStatistics :: "'ctx \<Rightarrow> DataStat \<Rightarrow> database \<Rightarrow> error option \<times> database" where
  "SaveDBStatistics ctx ds db = (None, db)"

section \<open>Properties\<close>

subsection \<open>Atomic policy writes\<close>

text \<open>
  What holds of \<^verbatim>\<open>handlePutPolicy\<close> in general: an unknown action returns before
  any store call; a run in which the store answers both saves and the commit, for an
  event with at least one statement, publishes the permission row and all statement
  rows together; a nil result needs all three answers; and on PostgreSQL, where a
  failed statement aborts the transaction, a run that returns an error for an event
  with at least one statement publishes nothing.
\<close>

lemma build_statements_length:
  "build_statements pid xs acc = Some stmts \<Longrightarrow> length stmts = length acc + length xs"
  by (induction pid xs acc rule: build_statements.induct) (auto split: option.splits)

lemma build_statements_policy:
  "build_statements pid xs acc = Some stmts \<Longrightarrow> \<forall>row \<in> set acc. st_PolicyID row = pid \<Longrightarrow>
   \<forall>row \<in> set stmts. st_PolicyID row = pid"
  by (induction pid xs acc rule: build_statements.induct) (auto split: option.splits)

lemma SavePermission_steps:
  "SavePermission None p db = (None, db\<lparr>permission := upsert_permission p (permission db)\<rparr>)"
  "SavePermission (Some e) p db = (Some e, db)"
  by (simp_all add: SavePermission_def Exec_def)

lemma MultiSaveStatement_steps:
  "stmts \<noteq> [] \<Longrightarrow> MultiSaveStatement None stmts db = (None, db\<lparr>statements := statements db @ stmts\<rparr>)"
  "stmts \<noteq> [] \<Longrightarrow> MultiSaveStatement (Some e) stmts db = (Some e, db)"
  "MultiSaveStatement r [] db = (Some ErrEmptySlice, db)"
  by (simp_all add: MultiSaveStatement_def Exec_def)

lemmas put_steps = SavePermission_steps MultiSaveStatement_steps

lemma handlePutPolicy_unknown_action:
  "build_statements (BigToHash (put_PolicyId policy)) (put_Statements policy) [] = None \<Longrightarrow>
   handlePutPolicy dl r1 r2 r3 t policy db = (Some (ErrNew ''unknown action type action''), db)"
  by (simp add: handlePutPolicy_def Let_def)

lemma handlePutPolicy_ok:
  "build_statements (BigToHash (put_PolicyId policy)) (put_Statements policy) [] = Some stmts \<Longrightarrow>
   stmts \<noteq> [] \<Longrightarrow>
   handlePutPolicy dl None None None t policy db
   = (None, db\<lparr>permission := upsert_permission (put_permission t policy) (permission db),
               statements := statements db @ stmts\<rparr>)"
  by (simp add: handlePutPolicy_def Let_def Begin_def in_tx_def Commit_def put_steps put_permission_def)

lemma handlePutPolicy_nil:
  "handlePutPolicy dl r1 r2 r3 t policy db = (None, db') \<Longrightarrow>
   r1 = None \<and> r2 = None \<and> r3 = None \<and> put_Statements policy \<noteq> []"
  by (cases r1; cases r2; cases r3; cases dl;
      cases "build_statements (BigToHash (put_PolicyId policy)) (put_Statements policy) []";
      cases "put_Statements policy = []")
     (auto simp: handlePutPolicy_def Let_def Begin_def in_tx_def Commit_def Rollback_def put_steps
        MultiSaveStatement_def Exec_def split: if_splits)

lemma handlePutPolicy_PostgreSQL_atomic:
  assumes "r1 \<noteq> Some ErrEmptySlice" "r2 \<noteq> Some ErrEmptySlice" "put_Statements policy \<noteq> []"
    and "fst (handlePutPolicy PostgreSQL r1 r2 r3 t policy db) \<noteq> None"
  shows "snd (handlePutPolicy PostgreSQL r1 r2 r3 t policy db) = db"
proof (cases "build_statements (BigToHash (put_PolicyId policy)) (put_Statements policy) []")
  case None
  then show ?thesis by (simp add: handlePutPolicy_unknown_action)
next
  case (Some stmts)
  from build_statements_length [OF Some] assms(3) have ne: "stmts \<noteq> []" by auto
  from assms(1,2,4) Some ne show ?thesis
    by (cases r1; cases r2; cases r3)
       (auto simp: handlePutPolicy_def Let_def Begin_def in_tx_def Commit_def Rollback_def put_steps
          split: if_splits)
qed

text \<open>
  C1. \<^verbatim>\<open>handlePutPolicy\<close> calls \<^verbatim>\<open>Commit\<close> before it looks at the errors of the
  two saves, and \<^verbatim>\<open>Rollback\<close> only afterwards, on a transaction that is already
  finished. Three runs that return an error and still publish rows of policy 5:
  an event without statements, on either dialect (the batch insert of an empty slice
  fails before any statement is sent, the permission row is committed); on MySQL, a
  failed statement insert (the permission row is committed alone); on MySQL, a
  failed permission upsert (the statement row is committed alone).
\<close>

theorem handlePutPolicy_partial_commit:
  "handlePutPolicy dl None None None 100 (policy_5 []) empty_database
     = (Some (ErrNew ''save policy transaction failed''),
        empty_database\<lparr>permission := [permission_5]\<rparr>) \<and>
   handlePutPolicy MySQL None (Some (ErrBackend ''lock wait timeout'')) None 100
       (policy_5 [allow_get]) empty_database
     = (Some (ErrNew ''save policy transaction failed''),
        empty_database\<lparr>permission := [permission_5]\<rparr>) \<and>
   handlePutPolicy MySQL (Some (ErrBackend ''lock wait timeout'')) None None 100
       (policy_5 [allow_get]) empty_database
     = (Some (ErrNew ''save policy transaction failed''),
        empty_database\<lparr>statements := [statement_of 5 False]\<rparr>)"
  by (simp add: handlePutPolicy_def policy_5_def permission_5_def statement_of_def allow_get_def
      Begin_def in_tx_def Commit_def Rollback_def Exec_def SavePermission_def
      MultiSaveStatement_def upsert_permission_def empty_database_def BigToHash_def)

theorem handlePutPolicy_partial_commit_witness:
  "fst (handlePutPolicy PostgreSQL None None None 100 (policy_5 []) empty_database)
     = Some (ErrNew ''save policy transaction failed'') \<and>
   map PolicyID (permission (snd (handlePutPolicy PostgreSQL None None None 100 (policy_5 [])
      empty_database))) = [BigToHash 5] \<and>
   map st_PolicyID (statements (snd (handlePutPolicy MySQL (Some (ErrBackend ''lock wait timeout''))
      None None 100 (policy_5 [allow_get]) empty_database))) = [BigToHash 5] \<and>
   permission (snd (handlePutPolicy MySQL (Some (ErrBackend ''lock wait timeout''))
      None None 100 (policy_5 [allow_get]) empty_database)) = []"
  using handlePutPolicy_partial_commit [of PostgreSQL]
  by (simp add: permission_5_def statement_of_def BigToHash_def empty_database_def)

subsection \<open>Reading an object\<close>

text \<open>
  C2. \<^verbatim>\<open>GetObject\<close> at a key without a row: on a database with no object row at
  all, with the store answering the query, it returns the zero-valued object and a
  nil error, not a not-found error. In general, with the store answering: when every
  row with the object id is removed, or none exists, the result is the zero-valued
  object and nil; otherwise it is the first row, in table order, that has the object
  id and is not removed. The object returned is never a removed row. When the store
  reports an error the result is nil and that error.
\<close>

theorem GetObject_absent_nil_error:
  "GetObject None 7 empty_database = (Some zero_Object, None) \<and>
   snd (GetObject None 7 empty_database) \<noteq> Some ErrRecordNotFound \<and>
   ((\<forall>row \<in> set (objects db). obj_ObjectID row = objectId \<longrightarrow> obj_Removed row) \<longrightarrow>
      GetObject None objectId db = (Some zero_Object, None)) \<and>
   (objects db = pre @ x # post \<and>
    (\<forall>row \<in> set pre. obj_ObjectID row = objectId \<longrightarrow> obj_Removed row) \<and>
    obj_ObjectID x = objectId \<and> \<not> obj_Removed x \<longrightarrow>
      GetObject None objectId db = (Some x, None)) \<and>
   GetObject (Some e) objectId db = (None, Some e) \<and>
   (GetObject r objectId db = (Some object', err) \<longrightarrow> \<not> obj_Removed object' \<and> err = None)"
proof -
  let ?P = "\<lambda>row. obj_ObjectID row = objectId \<and> \<not> obj_Removed row"
  have absent: "GetObject None 7 empty_database = (Some zero_Object, None)"
    by (simp add: GetObject_def Find_def empty_database_def)
  have none: "GetObject None objectId db = (Some zero_Object, None)"
    if "\<forall>row \<in> set (objects db). obj_ObjectID row = objectId \<longrightarrow> obj_Removed row"
  proof -
    from that have "filter ?P (objects db) = []"
      by (auto simp: filter_empty_conv)
    then show ?thesis by (simp add: GetObject_def Find_def)
  qed
  have first: "GetObject None objectId db = (Some a, None)"
    if "objects db = before @ a # after"
      and "\<forall>row \<in> set before. obj_ObjectID row = objectId \<longrightarrow> obj_Removed row"
      and "obj_ObjectID a = objectId" and "\<not> obj_Removed a"
    for before a after
  proof -
    from that(2) have "filter ?P before = []"
      by (auto simp: filter_empty_conv)
    with that(1,3,4) have "filter ?P (objects db) = a # filter ?P after"
      by simp
    then show ?thesis by (simp add: GetObject_def Find_def)
  qed
  have failed: "GetObject (Some e) objectId db = (None, Some e)"
    by (simp add: GetObject_def Find_def)
  have live: "\<not> obj_Removed object' \<and> err = None"
    if ret: "GetObject r objectId db = (Some object', err)"
  proof (cases r)
    case (Some e')
    with ret show ?thesis by (simp add: GetObject_def Find_def)
  next
    case None
    show ?thesis
    proof (cases "\<exists>row \<in> set (objects db). ?P row")
      case False
      then have "GetObject None objectId db = (Some zero_Object, None)"
        by (intro none) blast
      with ret None show ?thesis by (auto simp: zero_Object_def)
    next
      case True
      from split_list_first_prop [OF True] obtain ys y zs
        where s: "objects db = ys @ y # zs" "?P y" "\<forall>row \<in> set ys. \<not> ?P row"
        by blast
      from s have "GetObject None objectId db = (Some y, None)"
        by (intro first [of ys y zs]) auto
      with ret None s(2) show ?thesis by simp
    qed
  qed
  from absent none first failed live show ?thesis by simp
qed

theorem GetObject_absent_nil_error_witness:
  "GetObject None 7 sample_objects = (Some zero_Object, None) \<and>
   GetObject None 8 sample_objects
     = (Some \<lparr>obj_ObjectID = 8, obj_Removed = False, obj_Rest = ''b''\<rparr>, None) \<and>
   GetObject None 9 sample_objects = (Some zero_Object, None)"
proof -
  have rows: "objects sample_objects =
      [\<lparr>obj_ObjectID = 7, obj_Removed = True, obj_Rest = ''a''\<rparr>] @
       \<lparr>obj_ObjectID = 8, obj_Removed = False, obj_Rest = ''b''\<rparr> #
      [\<lparr>obj_ObjectID = 8, obj_Removed = False, obj_Rest = ''c''\<rparr>]"
    by (simp add: sample_objects_def)
  note t7 = GetObject_absent_nil_error [where db = sample_objects and objectId = 7]
  note t9 = GetObject_absent_nil_error [where db = sample_objects and objectId = 9]
  note t8 = GetObject_absent_nil_error [where db = sample_objects and objectId = 8
      and pre = "[\<lparr>obj_ObjectID = 7, obj_Removed = True, obj_Rest = ''a''\<rparr>]"
      and x = "\<lparr>obj_ObjectID = 8, obj_Removed = False, obj_Rest = ''b''\<rparr>"
      and post = "[\<lparr>obj_ObjectID = 8, obj_Removed = False, obj_Rest = ''c''\<rparr>]"]
  from t7 have r7: "GetObject None 7 sample_objects = (Some zero_Object, None)"
    by (simp add: sample_objects_def)
  from t9 have r9: "GetObject None 9 sample_objects = (Some zero_Object, None)"
    by (simp add: sample_objects_def)
  from t8 rows have r8: "GetObject None 8 sample_objects
     = (Some \<lparr>obj_ObjectID = 8, obj_Removed = False, obj_Rest = ''b''\<rparr>, None)"
    by simp
  from r7 r8 r9 show ?thesis by simp
qed

subsection \<open>Deleting a policy\<close>

text \<open>
  What holds of \<^verbatim>\<open>handleDeletePolicy\<close> in general: a run in which the store
  answers both updates and the commit marks as removed the permission rows and
  exactly the statement rows of the policy id, and stamps the permission rows with
  the block time when it is not zero; a nil result needs all three answers; no run
  changes the number of rows of either table; and on PostgreSQL a run that returns
  an error publishes nothing.
\<close>

lemma UpdatePermission_removed:
  "UpdatePermission None \<lparr>PrincipalType = 0, PrincipalValue = [], ResourceType = [],
        ResourceID = 0, PolicyID = pid, CreateTimestamp = 0,
        UpdateTimestamp = t, ExpirationTime = 0, Removed = True\<rparr> db
   = (None, db\<lparr>permission := map (mark_permission pid t) (permission db)\<rparr>)"
proof -
  have "(\<lambda>row. if PolicyID row = pid then Updates \<lparr>PrincipalType = 0, PrincipalValue = [], ResourceType = [],
        ResourceID = 0, PolicyID = pid, CreateTimestamp = 0,
        UpdateTimestamp = t, ExpirationTime = 0, Removed = True\<rparr> row else row) = mark_permission pid t"
    by (rule ext) (simp add: Updates_def mark_permission_def)
  then show ?thesis
    by (simp add: UpdatePermission_def Exec_def)
qed

lemma UpdatePermission_failed: "UpdatePermission (Some e) p db = (Some e, db)"
  by (simp add: UpdatePermission_def Exec_def)

lemma RemoveStatements_removed:
  "RemoveStatements None pid db = (None, db\<lparr>statements := map (mark_statement pid) (statements db)\<rparr>)"
proof -
  have "(\<lambda>row. if st_PolicyID row = pid then row\<lparr>st_Removed := True\<rparr> else row) = mark_statement pid"
    by (rule ext) (simp add: mark_statement_def)
  then show ?thesis by (simp add: RemoveStatements_def Exec_def)
qed

lemma RemoveStatements_failed: "RemoveStatements (Some e) pid db = (Some e, db)"
  by (simp add: RemoveStatements_def Exec_def)

lemmas delete_steps = UpdatePermission_removed UpdatePermission_failed RemoveStatements_removed RemoveStatements_failed

lemma handleDeletePolicy_ok:
  "handleDeletePolicy dl None None None t ev db
   = (None, db\<lparr>permission := map (mark_permission (BigToHash (del_PolicyId ev)) t) (permission db),
               statements := map (mark_statement (BigToHash (del_PolicyId ev))) (statements db)\<rparr>)"
  by (simp add: handleDeletePolicy_def Let_def Begin_def in_tx_def Commit_def delete_steps)

lemma handleDeletePolicy_nil:
  "handleDeletePolicy dl r1 r2 r3 t ev db = (None, db') \<Longrightarrow> r1 = None \<and> r2 = None \<and> r3 = None"
  by (cases r1; cases r2; cases r3; cases dl)
     (auto simp: handleDeletePolicy_def Let_def Begin_def in_tx_def Commit_def Rollback_def delete_steps split: if_splits)

lemma handleDeletePolicy_keeps_rows:
  "length (permission (snd (handleDeletePolicy dl r1 r2 r3 t ev db))) = length (permission db) \<and>
   length (statements (snd (handleDeletePolicy dl r1 r2 r3 t ev db))) = length (statements db)"
  by (cases r1; cases r2; cases r3; cases dl)
     (auto simp: handleDeletePolicy_def Let_def Begin_def in_tx_def Commit_def Rollback_def delete_steps split: if_splits)

lemma handleDeletePolicy_PostgreSQL_atomic:
  "r1 \<noteq> Some ErrEmptySlice \<Longrightarrow> r2 \<noteq> Some ErrEmptySlice \<Longrightarrow>
   snd (handleDeletePolicy PostgreSQL r1 r2 r3 t ev db) =
     (if r1 = None \<and> r2 = None \<and> r3 = None
      then db\<lparr>permission := map (mark_permission (BigToHash (del_PolicyId ev)) t) (permission db),
               statements := map (mark_statement (BigToHash (del_PolicyId ev))) (statements db)\<rparr>
      else db)"
  by (cases r1; cases r2; cases r3)
     (auto simp: handleDeletePolicy_def Let_def Begin_def in_tx_def Commit_def Rollback_def delete_steps split: if_splits)

text \<open>
  C3. \<^verbatim>\<open>handleDeletePolicy\<close> has the same order of calls. On MySQL, with policy 5
  stored as one permission row and one statement row beside a statement of policy 6:
  when the permission update fails the statement of policy 5 is published as removed
  while its permission row is not, and when the statement update fails the
  permission row is published as removed while its statement is not; both runs
  return an error.
\<close>

theorem handleDeletePolicy_partial_commit:
  "handleDeletePolicy MySQL (Some (ErrBackend ''lock wait timeout'')) None None 200
       \<lparr>del_PolicyId = 5\<rparr> policy_5_stored
     = (Some (ErrNew ''delete policy transaction failed''),
        policy_5_stored\<lparr>statements := [statement_of 5 True, statement_of 6 False]\<rparr>) \<and>
   handleDeletePolicy MySQL None (Some (ErrBackend ''lock wait timeout'')) None 200
       \<lparr>del_PolicyId = 5\<rparr> policy_5_stored
     = (Some (ErrNew ''delete policy transaction failed''),
        policy_5_stored\<lparr>permission := [permission_5\<lparr>UpdateTimestamp := 200, Removed := True\<rparr>]\<rparr>)"
  by (simp add: handleDeletePolicy_def Let_def Begin_def in_tx_def Commit_def Rollback_def
      delete_steps BigToHash_def policy_5_stored_def empty_database_def mark_permission_def
      mark_statement_def permission_5_def statement_of_def)

theorem handleDeletePolicy_partial_commit_witness:
  "fst (handleDeletePolicy MySQL (Some (ErrBackend ''lock wait timeout'')) None None 200
      \<lparr>del_PolicyId = 5\<rparr> policy_5_stored)
     = Some (ErrNew ''delete policy transaction failed'') \<and>
   map st_Removed (statements (snd (handleDeletePolicy MySQL (Some (ErrBackend ''lock wait timeout''))
      None None 200 \<lparr>del_PolicyId = 5\<rparr> policy_5_stored))) = [True, False] \<and>
   map Removed (permission (snd (handleDeletePolicy MySQL (Some (ErrBackend ''lock wait timeout''))
      None None 200 \<lparr>del_PolicyId = 5\<rparr> policy_5_stored))) = [False]"
  using handleDeletePolicy_partial_commit
  by (simp add: policy_5_stored_def permission_5_def statement_of_def empty_database_def)

subsection \<open>Pruning a height\<close>

text \<open>
  C4. For every height \<open>h\<close>: when \<^verbatim>\<open>Prune\<close> returns nil, every commit-signature
  row at height \<open>h\<close> and every message row whose transaction is at height \<open>h\<close> is
  gone and every other row is kept; otherwise it returns the error of the statement
  that failed (a failure of the first statement leaves the database as it was, a
  failure of the second leaves the first deletion in place). When the store runs
  both statements the call returns nil, and with no row at \<open>h\<close> it then changes
  nothing.
\<close>

theorem Prune_unit:
  "(Prune r1 r2 h db = (None, db') \<longrightarrow>
      pre_commit db' = filter (\<lambda>c. cs_Height c \<noteq> h) (pre_commit db) \<and>
      message db' =
        filter (\<lambda>m. \<not> (\<exists>t \<in> set (transaction db). transaction_hash m = tx_hash t \<and> tx_height t = h))
          (message db) \<and>
      db' = db\<lparr>pre_commit := pre_commit db', message := message db'\<rparr>) \<and>
   (fst (Prune r1 r2 h db) = None \<or> fst (Prune r1 r2 h db) = r1 \<or> fst (Prune r1 r2 h db) = r2) \<and>
   fst (Prune None None h db) = None \<and>
   Prune (Some e) r2 h db = (Some e, db) \<and>
   Prune None (Some e) h db
     = (Some e, db\<lparr>pre_commit := filter (\<lambda>c. cs_Height c \<noteq> h) (pre_commit db)\<rparr>) \<and>
   ((\<forall>c \<in> set (pre_commit db). cs_Height c \<noteq> h) \<and>
    (\<forall>m \<in> set (message db). \<forall>t \<in> set (transaction db).
        transaction_hash m = tx_hash t \<longrightarrow> tx_height t \<noteq> h) \<longrightarrow>
      Prune None None h db = (None, db))"
proof -
  have keep: "filter (\<lambda>m. \<not> parent_at h (transaction db) m) (message db) = message db"
    if "\<forall>m \<in> set (message db). \<forall>t \<in> set (transaction db).
          transaction_hash m = tx_hash t \<longrightarrow> tx_height t \<noteq> h"
    using that by (auto simp: parent_at_def list_ex_iff filter_id_conv)
  show ?thesis
    by (cases r1; cases r2)
       (auto simp: Prune_def Exec_def delete_pre_commit_def delete_message_def keep
          filter_id_conv parent_at_def list_ex_iff)
qed

theorem Prune_unit_witness:
  "Prune None None 5
     (empty_database\<lparr>pre_commit := [\<lparr>ValidatorAddress = ''v'', cs_Height = 5, cs_Timestamp = 1,
                                      VotingPower = 1, ProposerPriority = 0\<rparr>,
                                    \<lparr>ValidatorAddress = ''v'', cs_Height = 6, cs_Timestamp = 2,
                                      VotingPower = 1, ProposerPriority = 0\<rparr>],
                     transaction := [\<lparr>tx_hash = 1, tx_height = 5\<rparr>, \<lparr>tx_hash = 2, tx_height = 6\<rparr>],
                     message := [\<lparr>transaction_hash = 1, msg_Rest = ''m1''\<rparr>,
                                 \<lparr>transaction_hash = 2, msg_Rest = ''m2''\<rparr>]\<rparr>)
   = (None,
      empty_database\<lparr>pre_commit := [\<lparr>ValidatorAddress = ''v'', cs_Height = 6, cs_Timestamp = 2,
                                      VotingPower = 1, ProposerPriority = 0\<rparr>],
                     transaction := [\<lparr>tx_hash = 1, tx_height = 5\<rparr>, \<lparr>tx_hash = 2, tx_height = 6\<rparr>],
                     message := [\<lparr>transaction_hash = 2, msg_Rest = ''m2''\<rparr>]\<rparr>) \<and>
   Prune None None 5 empty_database = (None, empty_database)"
proof -
  have none: "(\<forall>c \<in> set (pre_commit empty_database). cs_Height c \<noteq> 5) \<and>
    (\<forall>m \<in> set (message empty_database). \<forall>t \<in> set (transaction empty_database).
        transaction_hash m = tx_hash t \<longrightarrow> tx_height t \<noteq> 5)"
    by (simp add: empty_database_def)
  have noop: "Prune None None 5 empty_database = (None, empty_database)"
    using Prune_unit [of None None 5 empty_database] none by blast
  have run: "Prune None None 5
     (empty_database\<lparr>pre_commit := [\<lparr>ValidatorAddress = ''v'', cs_Height = 5, cs_Timestamp = 1,
                                      VotingPower = 1, ProposerPriority = 0\<rparr>,
                                    \<lparr>ValidatorAddress = ''v'', cs_Height = 6, cs_Timestamp = 2,
                                      VotingPower = 1, ProposerPriority = 0\<rparr>],
                     transaction := [\<lparr>tx_hash = 1, tx_height = 5\<rparr>, \<lparr>tx_hash = 2, tx_height = 6\<rparr>],
                     message := [\<lparr>transaction_hash = 1, msg_Rest = ''m1''\<rparr>,
                                 \<lparr>transaction_hash = 2, msg_Rest = ''m2''\<rparr>]\<rparr>)
   = (None,
      empty_database\<lparr>pre_commit := [\<lparr>ValidatorAddress = ''v'', cs_Height = 6, cs_Timestamp = 2,
                                      VotingPower = 1, ProposerPriority = 0\<rparr>],
                     transaction := [\<lparr>tx_hash = 1, tx_height = 5\<rparr>, \<lparr>tx_hash = 2, tx_height = 6\<rparr>],
                     message := [\<lparr>transaction_hash = 2, msg_Rest = ''m2''\<rparr>]\<rparr>)"
    by (simp add: Prune_def Exec_def delete_pre_commit_def delete_message_def parent_at_def
          empty_database_def)
  from run noop show ?thesis by simp
qed

subsection \<open>Upserts settle after one call\<close>

lemma upsert_bucket_idem: "upsert_bucket b (upsert_bucket b rows) = upsert_bucket b rows"
proof (cases "\<exists>row \<in> set rows. bkt_BucketID row = bkt_BucketID b")
  case True
  then have 1: "upsert_bucket b rows = map (\<lambda>row. if bkt_BucketID row = bkt_BucketID b then b else row) rows"
    by (simp add: upsert_bucket_def list_ex_iff)
  from True have 2: "\<exists>row \<in> set (upsert_bucket b rows). bkt_BucketID row = bkt_BucketID b"
    unfolding 1 by force
  show ?thesis
    unfolding upsert_bucket_def [of b "upsert_bucket b rows"] list_ex_iff using 2
    by (simp add: 1)
next
  case False
  then have 1: "upsert_bucket b rows = rows @ [b]"
    by (simp add: upsert_bucket_def list_ex_iff)
  from False have "map (\<lambda>row. if bkt_BucketID row = bkt_BucketID b then b else row) rows = rows"
    by (intro map_idI) auto
  then show ?thesis
    unfolding 1 by (simp add: upsert_bucket_def [of b "rows @ [b]"] list_ex_iff)
qed

lemma upsert_block_settled:
  assumes "\<exists>row \<in> set rows. blk_Height row = blk_Height b"
    and "\<forall>row \<in> set rows. blk_Hash row = blk_Hash b \<longrightarrow> blk_Height row = blk_Height b"
    and "\<forall>row \<in> set rows. blk_Height row = blk_Height b \<longrightarrow> row = b"
  shows "upsert_block dl b rows = Some rows"
proof -
  from assms(3) have "map (\<lambda>row. if blk_Height row = blk_Height b then b else row) rows = rows"
    by (intro map_idI) auto
  moreover from assms(2) have "\<not> (\<exists>row \<in> set rows. blk_Hash row = blk_Hash b \<and> blk_Height row \<noteq> blk_Height b)"
    by blast
  ultimately show ?thesis
    using assms(1) by (simp add: upsert_block_def list_ex_iff)
qed

lemma upsert_block_idem:
  assumes "upsert_block dl b rows = Some rows'"
  shows "upsert_block dl b rows' = Some rows'"
proof (cases "\<exists>row \<in> set rows. blk_Height row = blk_Height b")
  case True
  show ?thesis
  proof (cases "\<exists>row \<in> set rows. blk_Hash row = blk_Hash b \<and> blk_Height row \<noteq> blk_Height b")
    case clash: True
    with True assms show ?thesis
      by (simp add: upsert_block_def list_ex_iff)
  next
    case free: False
    with True assms have r: "rows' = map (\<lambda>row. if blk_Height row = blk_Height b then b else row) rows"
      by (simp add: upsert_block_def list_ex_iff)
    from True have 1: "\<exists>row \<in> set rows'. blk_Height row = blk_Height b"
      unfolding r by force
    from free have 2: "\<forall>row \<in> set rows'. blk_Hash row = blk_Hash b \<longrightarrow> blk_Height row = blk_Height b"
      unfolding r by auto
    have 3: "\<forall>row \<in> set rows'. blk_Height row = blk_Height b \<longrightarrow> row = b"
      unfolding r by auto
    from 1 2 3 show ?thesis by (rule upsert_block_settled)
  qed
next
  case False
  show ?thesis
  proof (cases "\<exists>row \<in> set rows. blk_Hash row = blk_Hash b")
    case True
    with False assms have dl: "dl = MySQL"
      and r: "rows' = map (\<lambda>row. if blk_Hash row = blk_Hash b then b else row) rows"
      by (cases dl; simp add: upsert_block_def list_ex_iff)+
    from True have 1: "\<exists>row \<in> set rows'. blk_Height row = blk_Height b"
      unfolding r by force
    have 2: "\<forall>row \<in> set rows'. blk_Hash row = blk_Hash b \<longrightarrow> blk_Height row = blk_Height b"
      unfolding r by auto
    from False have 3: "\<forall>row \<in> set rows'. blk_Height row = blk_Height b \<longrightarrow> row = b"
      unfolding r by auto
    from 1 2 3 show ?thesis by (rule upsert_block_settled)
  next
    case none: False
    with False assms have r: "rows' = rows @ [b]"
      by (simp add: upsert_block_def list_ex_iff)
    have 1: "\<exists>row \<in> set rows'. blk_Height row = blk_Height b"
      unfolding r by simp
    from none have 2: "\<forall>row \<in> set rows'. blk_Hash row = blk_Hash b \<longrightarrow> blk_Height row = blk_Height b"
      unfolding r by auto
    from False have 3: "\<forall>row \<in> set rows'. blk_Height row = blk_Height b \<longrightarrow> row = b"
      unfolding r by auto
    from 1 2 3 show ?thesis by (rule upsert_block_settled)
  qed
qed

lemma SaveBlock_idem: "SaveBlock dl None blk (snd (SaveBlock dl None blk db)) = SaveBlock dl None blk db"
proof (cases "upsert_block dl blk (blocks db)")
  case None
  then show ?thesis by (simp add: SaveBlock_def)
next
  case (Some rows')
  from upsert_block_idem [OF Some] Some show ?thesis
    by (simp add: SaveBlock_def)
qed

text \<open>
  C5. \<^verbatim>\<open>SaveBlock\<close> names \<^verbatim>\<open>hash\<close> and \<^verbatim>\<open>height\<close> as conflict targets, but
  only the second clause reaches the statement. On PostgreSQL a block whose hash is
  stored under another height is therefore refused as a duplicate and the stored row
  is not overwritten; on MySQL the same call overwrites it. On both dialects a block
  whose height and hash are held by two different rows is refused. Apart from that,
  with the store answering: a second call of \<^verbatim>\<open>SaveBucket\<close> or \<^verbatim>\<open>SaveBlock\<close> with
  the same value returns what the first returned and leaves the database as the
  first call left it; \<^verbatim>\<open>SaveBucket\<close> replaces the columns of the row with the
  bucket id of the value and keeps every other row, and appends the value when no row
  has the bucket id; \<^verbatim>\<open>SaveBlock\<close> replaces the columns of the row with the height
  of the value when no row of another height holds its hash, and appends the value
  when no row has its height or its hash.
\<close>

theorem SaveBlock_hash_conflict:
  "SaveBlock PostgreSQL None \<lparr>blk_Hash = 10, blk_Height = 2, blk_Rest = ''new''\<rparr> one_block
     = (Some (ErrBackend ''duplicate key''), one_block) \<and>
   SaveBlock MySQL None \<lparr>blk_Hash = 10, blk_Height = 2, blk_Rest = ''new''\<rparr> one_block
     = (None, empty_database\<lparr>blocks := [\<lparr>blk_Hash = 10, blk_Height = 2, blk_Rest = ''new''\<rparr>]\<rparr>) \<and>
   SaveBlock dl None \<lparr>blk_Hash = 10, blk_Height = 2, blk_Rest = ''new''\<rparr> two_blocks
     = (Some (ErrBackend ''duplicate key''), two_blocks) \<and>
   SaveBucket None b (snd (SaveBucket None b db)) = SaveBucket None b db \<and>
   SaveBlock dl None blk (snd (SaveBlock dl None blk db)) = SaveBlock dl None blk db \<and>
   ((\<exists>row \<in> set (buckets db). bkt_BucketID row = bkt_BucketID b) \<longrightarrow>
      SaveBucket None b db
        = (None, db\<lparr>buckets := map (\<lambda>row. if bkt_BucketID row = bkt_BucketID b then b else row)
                                   (buckets db)\<rparr>)) \<and>
   ((\<forall>row \<in> set (buckets db). bkt_BucketID row \<noteq> bkt_BucketID b) \<longrightarrow>
      SaveBucket None b db = (None, db\<lparr>buckets := buckets db @ [b]\<rparr>)) \<and>
   ((\<exists>row \<in> set (blocks db). blk_Height row = blk_Height blk) \<and>
    (\<forall>row \<in> set (blocks db). blk_Hash row = blk_Hash blk \<longrightarrow> blk_Height row = blk_Height blk) \<longrightarrow>
      SaveBlock dl None blk db
        = (None, db\<lparr>blocks := map (\<lambda>row. if blk_Height row = blk_Height blk then blk else row)
                                  (blocks db)\<rparr>)) \<and>
   ((\<forall>row \<in> set (blocks db). blk_Height row \<noteq> blk_Height blk \<and> blk_Hash row \<noteq> blk_Hash blk) \<longrightarrow>
      SaveBlock dl None blk db = (None, db\<lparr>blocks := blocks db @ [blk]\<rparr>))"
proof -
  have 0: "SaveBlock PostgreSQL None \<lparr>blk_Hash = 10, blk_Height = 2, blk_Rest = ''new''\<rparr> one_block
     = (Some (ErrBackend ''duplicate key''), one_block)"
    by (simp add: SaveBlock_def upsert_block_def one_block_def empty_database_def)
  have mysql: "SaveBlock MySQL None \<lparr>blk_Hash = 10, blk_Height = 2, blk_Rest = ''new''\<rparr> one_block
     = (None, empty_database\<lparr>blocks := [\<lparr>blk_Hash = 10, blk_Height = 2, blk_Rest = ''new''\<rparr>]\<rparr>)"
    by (simp add: SaveBlock_def upsert_block_def one_block_def empty_database_def)
  have clash: "SaveBlock dl None \<lparr>blk_Hash = 10, blk_Height = 2, blk_Rest = ''new''\<rparr> two_blocks
     = (Some (ErrBackend ''duplicate key''), two_blocks)"
    by (simp add: SaveBlock_def upsert_block_def two_blocks_def empty_database_def)
  have 1: "SaveBucket None b (snd (SaveBucket None b db)) = SaveBucket None b db"
    by (simp add: SaveBucket_def Exec_def upsert_bucket_idem)
  have 2: "SaveBlock dl None blk (snd (SaveBlock dl None blk db)) = SaveBlock dl None blk db"
    by (rule SaveBlock_idem)
  have 3: "SaveBucket None b db
        = (None, db\<lparr>buckets := map (\<lambda>row. if bkt_BucketID row = bkt_BucketID b then b else row)
                                   (buckets db)\<rparr>)"
    if "\<exists>row \<in> set (buckets db). bkt_BucketID row = bkt_BucketID b"
    using that by (simp add: SaveBucket_def Exec_def upsert_bucket_def list_ex_iff)
  have 4: "SaveBucket None b db = (None, db\<lparr>buckets := buckets db @ [b]\<rparr>)"
    if "\<forall>row \<in> set (buckets db). bkt_BucketID row \<noteq> bkt_BucketID b"
    using that by (simp add: SaveBucket_def Exec_def upsert_bucket_def list_ex_iff)
  have 5: "SaveBlock dl None blk db
        = (None, db\<lparr>blocks := map (\<lambda>row. if blk_Height row = blk_Height blk then blk else row)
                                  (blocks db)\<rparr>)"
    if "\<exists>row \<in> set (blocks db). blk_Height row = blk_Height blk"
      and "\<forall>row \<in> set (blocks db). blk_Hash row = blk_Hash blk \<longrightarrow> blk_Height row = blk_Height blk"
  proof -
    from that(2) have "\<not> (\<exists>row \<in> set (blocks db).
        blk_Hash row = blk_Hash blk \<and> blk_Height row \<noteq> blk_Height blk)"
      by blast
    with that(1) show ?thesis
      by (simp add: SaveBlock_def upsert_block_def list_ex_iff)
  qed
  have 6: "SaveBlock dl None blk db = (None, db\<lparr>blocks := blocks db @ [blk]\<rparr>)"
    if "\<forall>row \<in> set (blocks db). blk_Height row \<noteq> blk_Height blk \<and> blk_Hash row \<noteq> blk_Hash blk"
  proof -
    from that have "\<not> (\<exists>row \<in> set (blocks db). blk_Height row = blk_Height blk)"
      "\<not> (\<exists>row \<in> set (blocks db). blk_Hash row = blk_Hash blk)"
      by blast+
    then show ?thesis
      by (simp add: SaveBlock_def upsert_block_def list_ex_iff)
  qed
  from 0 mysql clash 1 2 3 4 5 6 show ?thesis by blast
qed

theorem SaveBlock_hash_conflict_witness:
  "SaveBucket None \<lparr>bkt_BucketID = 1, bkt_Rest = ''new''\<rparr>
     (empty_database\<lparr>buckets := [\<lparr>bkt_BucketID = 1, bkt_Rest = ''old''\<rparr>,
                                  \<lparr>bkt_BucketID = 2, bkt_Rest = ''two''\<rparr>]\<rparr>)
   = (None, empty_database\<lparr>buckets := [\<lparr>bkt_BucketID = 1, bkt_Rest = ''new''\<rparr>,
                                        \<lparr>bkt_BucketID = 2, bkt_Rest = ''two''\<rparr>]\<rparr>) \<and>
   SaveBucket None \<lparr>bkt_BucketID = 1, bkt_Rest = ''new''\<rparr> empty_database
   = (None, empty_database\<lparr>buckets := [\<lparr>bkt_BucketID = 1, bkt_Rest = ''new''\<rparr>]\<rparr>) \<and>
   SaveBlock PostgreSQL None \<lparr>blk_Hash = 11, blk_Height = 1, blk_Rest = ''new''\<rparr> one_block
   = (None, empty_database\<lparr>blocks := [\<lparr>blk_Hash = 11, blk_Height = 1, blk_Rest = ''new''\<rparr>]\<rparr>) \<and>
   SaveBlock PostgreSQL None \<lparr>blk_Hash = 11, blk_Height = 2, blk_Rest = ''new''\<rparr> one_block
   = (None, empty_database\<lparr>blocks := [\<lparr>blk_Hash = 10, blk_Height = 1, blk_Rest = ''old''\<rparr>,
                                       \<lparr>blk_Hash = 11, blk_Height = 2, blk_Rest = ''new''\<rparr>]\<rparr>)"
proof -
  let ?b = "\<lparr>bkt_BucketID = 1, bkt_Rest = ''new''\<rparr>"
  let ?db = "empty_database\<lparr>buckets := [\<lparr>bkt_BucketID = 1, bkt_Rest = ''old''\<rparr>,
                                          \<lparr>bkt_BucketID = 2, bkt_Rest = ''two''\<rparr>]\<rparr>"
  from SaveBlock_hash_conflict [where b = ?b and db = ?db]
  have 1: "SaveBucket None ?b ?db
      = (None, ?db\<lparr>buckets := map (\<lambda>row. if bkt_BucketID row = bkt_BucketID ?b then ?b else row)
                                   (buckets ?db)\<rparr>)"
    by simp
  from SaveBlock_hash_conflict [where b = ?b and db = empty_database]
  have 2: "SaveBucket None ?b empty_database = (None, empty_database\<lparr>buckets := buckets empty_database @ [?b]\<rparr>)"
    by (simp add: empty_database_def)
  from SaveBlock_hash_conflict [where db = one_block and dl = PostgreSQL
      and blk = "\<lparr>blk_Hash = 11, blk_Height = 1, blk_Rest = ''new''\<rparr>"]
  have 3: "SaveBlock PostgreSQL None \<lparr>blk_Hash = 11, blk_Height = 1, blk_Rest = ''new''\<rparr> one_block
      = (None, one_block\<lparr>blocks := map (\<lambda>row. if blk_Height row = 1
             then \<lparr>blk_Hash = 11, blk_Height = 1, blk_Rest = ''new''\<rparr> else row) (blocks one_block)\<rparr>)"
    by (simp add: one_block_def empty_database_def)
  from SaveBlock_hash_conflict [where db = one_block and dl = PostgreSQL
      and blk = "\<lparr>blk_Hash = 11, blk_Height = 2, blk_Rest = ''new''\<rparr>"]
  have 4: "SaveBlock PostgreSQL None \<lparr>blk_Hash = 11, blk_Height = 2, blk_Rest = ''new''\<rparr> one_block
      = (None, one_block\<lparr>blocks := blocks one_block @ [\<lparr>blk_Hash = 11, blk_Height = 2, blk_Rest = ''new''\<rparr>]\<rparr>)"
    by (simp add: one_block_def empty_database_def)
  from 1 2 3 4 show ?thesis
    by (simp add: one_block_def empty_database_def)
qed

subsection \<open>The pruning watermark\<close>

text \<open>
  C6. For every height, also one below the stored watermark, \<^verbatim>\<open>StoreLastPruned\<close>
  deletes the rows of the watermark table and then inserts the height: when both
  statements run the table holds exactly that height, whenever the call returns nil
  the table holds exactly that height and \<^verbatim>\<open>GetLastPruned\<close> reads it back, and a
  failed insert leaves the table empty (the old row is deleted, not updated in place).
\<close>

theorem StoreLastPruned_replaces:
  "StoreLastPruned None None height db = (None, db\<lparr>pruning := [height]\<rparr>) \<and>
   (StoreLastPruned r1 r2 height db = (None, db') \<longrightarrow>
      db' = db\<lparr>pruning := [height]\<rparr> \<and> GetLastPruned None db' = (height, None)) \<and>
   StoreLastPruned None (Some e) height db = (Some e, db\<lparr>pruning := []\<rparr>) \<and>
   StoreLastPruned (Some e) r2 height db = (Some e, db)"
  by (cases r1; cases r2)
     (auto simp: StoreLastPruned_def Exec_def delete_from_pruning_def insert_into_pruning_def
        GetLastPruned_def max_signed_def)

theorem StoreLastPruned_replaces_witness:
  "StoreLastPruned None None 3 (empty_database\<lparr>pruning := [9]\<rparr>)
     = (None, empty_database\<lparr>pruning := [3]\<rparr>) \<and>
   pruning (empty_database\<lparr>pruning := [3]\<rparr>) = [3] \<and>
   GetLastPruned None (empty_database\<lparr>pruning := [3]\<rparr>) = (3, None)"
proof -
  let ?db = "empty_database\<lparr>pruning := [9]\<rparr>"
  have run: "StoreLastPruned None None 3 ?db = (None, empty_database\<lparr>pruning := [3]\<rparr>)"
    by (simp add: StoreLastPruned_def Exec_def delete_from_pruning_def insert_into_pruning_def)
  from StoreLastPruned_replaces [of 3 ?db None None "empty_database\<lparr>pruning := [3]\<rparr>"] run
  show ?thesis by simp
qed

subsection \<open>The last block height\<close>

text \<open>
  C7. On an empty block table, with the store answering the query,
  \<^verbatim>\<open>GetLastBlockHeight\<close> returns height 0 and a nil error: the not-found answer
  of \<^verbatim>\<open>Take\<close> is absorbed. A not-found error that the store itself reports is
  absorbed in the same way.
\<close>

theorem GetLastBlockHeight_empty:
  "(blocks db = [] \<longrightarrow> GetLastBlockHeight None db = (0, None)) \<and>
   (errIsNotFound r \<longrightarrow> GetLastBlockHeight r db = (0, None))"
proof -
  have "GetLastBlockHeight r db = (0, None)" if "errIsNotFound r"
  proof -
    from that obtain e where r: "r = Some e" by (cases r) auto
    with that show ?thesis by (simp add: GetLastBlockHeight_def Take_def)
  qed
  then show ?thesis by (simp add: GetLastBlockHeight_def Take_def)
qed

theorem GetLastBlockHeight_empty_witness:
  "blocks empty_database = [] \<and> GetLastBlockHeight None empty_database = (0, None) \<and>
   errIsNotFound (Some ErrNoRows) \<and>
   GetLastBlockHeight (Some ErrNoRows)
     (empty_database\<lparr>blocks := [\<lparr>blk_Hash = 1, blk_Height = 4, blk_Rest = []\<rparr>]\<rparr>) = (0, None)"
proof -
  have e: "blocks empty_database = []" by (simp add: empty_database_def)
  have n: "errIsNotFound (Some ErrNoRows)" by simp
  from e n
    GetLastBlockHeight_empty [of empty_database "Some ErrNoRows"]
    GetLastBlockHeight_empty
      [of "empty_database\<lparr>blocks := [\<lparr>blk_Hash = 1, blk_Height = 4, blk_Rest = []\<rparr>]\<rparr>" "Some ErrNoRows"]
  show ?thesis by simp
qed

subsection \<open>Looking a module up\<close>

text \<open>
  C8. For every module list, every name and every comparison \<open>eq\<close> standing for
  \<^verbatim>\<open>strings.EqualFold\<close>: either the list splits into modules that do not match, a
  first module that matches and a rest, and \<^verbatim>\<open>FindByName\<close> returns that module
  with \<open>True\<close>; or no module matches and it returns nil with \<open>False\<close>.
\<close>

theorem FindByName_first_match:
  "(\<exists>pre m post. ms = pre @ m # post \<and> (\<forall>x \<in> set pre. \<not> eq (Name x) name) \<and>
       eq (Name m) name \<and> FindByName eq ms name = (Some m, True)) \<or>
   ((\<forall>x \<in> set ms. \<not> eq (Name x) name) \<and> FindByName eq ms name = (None, False))"
proof (induction ms)
  case Nil
  show ?case by simp
next
  case (Cons a ms)
  show ?case
  proof (cases "eq (Name a) name")
    case True
    then have "a # ms = [] @ a # ms \<and> (\<forall>x \<in> set []. \<not> eq (Name x) name) \<and>
       eq (Name a) name \<and> FindByName eq (a # ms) name = (Some a, True)"
      by simp
    then show ?thesis by blast
  next
    case False
    from Cons.IH show ?thesis
    proof
      assume "\<exists>pre m post. ms = pre @ m # post \<and> (\<forall>x \<in> set pre. \<not> eq (Name x) name) \<and>
         eq (Name m) name \<and> FindByName eq ms name = (Some m, True)"
      then obtain pre m post where h: "ms = pre @ m # post"
        "\<forall>x \<in> set pre. \<not> eq (Name x) name" "eq (Name m) name"
        "FindByName eq ms name = (Some m, True)"
        by blast
      from h False have "a # ms = (a # pre) @ m # post \<and>
         (\<forall>x \<in> set (a # pre). \<not> eq (Name x) name) \<and> eq (Name m) name \<and>
         FindByName eq (a # ms) name = (Some m, True)"
        by simp
      then show ?thesis by blast
    next
      assume "(\<forall>x \<in> set ms. \<not> eq (Name x) name) \<and> FindByName eq ms name = (None, False)"
      with False show ?thesis by simp
    qed
  qed
qed

theorem FindByName_first_match_witness:
  "FindByName EqualFold_ascii
     [\<lparr>Name = ''auth'', \<dots> = (1::nat)\<rparr>, \<lparr>Name = ''Bank'', \<dots> = 2\<rparr>, \<lparr>Name = ''bank'', \<dots> = 3\<rparr>] ''BANK''
     = (Some \<lparr>Name = ''Bank'', \<dots> = 2\<rparr>, True) \<and>
   FindByName EqualFold_ascii
     [\<lparr>Name = ''auth'', \<dots> = (1::nat)\<rparr>, \<lparr>Name = ''Bank'', \<dots> = 2\<rparr>, \<lparr>Name = ''bank'', \<dots> = 3\<rparr>] ''gov''
     = (None, False)"
proof -
  let ?ms = "[\<lparr>Name = ''auth'', \<dots> = (1::nat)\<rparr>, \<lparr>Name = ''Bank'', \<dots> = 2\<rparr>, \<lparr>Name = ''bank'', \<dots> = 3\<rparr>]"
  have a: "\<not> EqualFold_ascii ''auth'' ''BANK''" "EqualFold_ascii ''Bank'' ''BANK''"
    "\<not> EqualFold_ascii ''auth'' ''gov''" "\<not> EqualFold_ascii ''Bank'' ''gov''"
    "\<not> EqualFold_ascii ''bank'' ''gov''"
    by (simp_all add: EqualFold_ascii_def lower_ascii_def)
  from FindByName_first_match [of ?ms EqualFold_ascii "''BANK''"] a
  have 1: "FindByName EqualFold_ascii ?ms ''BANK'' = (Some \<lparr>Name = ''Bank'', \<dots> = 2\<rparr>, True)"
    by simp
  from FindByName_first_match [of ?ms EqualFold_ascii "''gov''"] a
  have 2: "FindByName EqualFold_ascii ?ms ''gov'' = (None, False)"
    by simp
  from 1 2 show ?thesis by simp
qed

subsection \<open>The epoch row\<close>

text \<open>
  C9. \<^verbatim>\<open>SaveEpoch\<close> changes no table but \<^verbatim>\<open>epoch\<close>. In that table no row loses
  its key or any column beyond the three it assigns, a row with another key is left
  as it was, and the row with the fixed key \<open>True\<close> gets the block height, block hash
  and update time of the value saved. The row count changes only when no row had the
  fixed key; then the value is appended under that key.
\<close>

theorem SaveEpoch_frame:
  "SaveEpoch None e db = (None, db\<lparr>epoch := upsert_epoch e (epoch db)\<rparr>) \<and>
   SaveEpoch (Some err) e db = (Some err, db) \<and>
   length (upsert_epoch e' rows)
     = (if \<exists>row \<in> set rows. OneRowId row then length rows else Suc (length rows)) \<and>
   (\<forall>i < length rows.
      OneRowId (upsert_epoch e' rows ! i) = OneRowId (rows ! i) \<and>
      Epoch.more (upsert_epoch e' rows ! i) = Epoch.more (rows ! i) \<and>
      (if OneRowId (rows ! i)
       then upsert_epoch e' rows ! i
              = (rows ! i)\<lparr>BlockHeight := BlockHeight e', BlockHash := BlockHash e',
                           UpdateTime := UpdateTime e'\<rparr>
       else upsert_epoch e' rows ! i = rows ! i)) \<and>
   (\<not> (\<exists>row \<in> set rows. OneRowId row) \<longrightarrow> upsert_epoch e' rows = rows @ [e'\<lparr>OneRowId := True\<rparr>])"
proof -
  have ex: "list_ex (\<lambda>row. OneRowId row) rows = (\<exists>row \<in> set rows. OneRowId row)"
    by (simp add: list_ex_iff)
  have len: "length (upsert_epoch e' rows)
     = (if \<exists>row \<in> set rows. OneRowId row then length rows else Suc (length rows))"
    by (simp add: upsert_epoch_def Let_def ex)
  have app: "\<not> (\<exists>row \<in> set rows. OneRowId row) \<longrightarrow> upsert_epoch e' rows = rows @ [e'\<lparr>OneRowId := True\<rparr>]"
    by (auto simp: upsert_epoch_def Let_def list_ex_iff)
  have row: "OneRowId (upsert_epoch e' rows ! i) = OneRowId (rows ! i) \<and>
      Epoch.more (upsert_epoch e' rows ! i) = Epoch.more (rows ! i) \<and>
      (if OneRowId (rows ! i)
       then upsert_epoch e' rows ! i
              = (rows ! i)\<lparr>BlockHeight := BlockHeight e', BlockHash := BlockHash e',
                           UpdateTime := UpdateTime e'\<rparr>
       else upsert_epoch e' rows ! i = rows ! i)"
    if "i < length rows" for i
  proof (cases "\<exists>row \<in> set rows. OneRowId row")
    case True
    with that show ?thesis
      by (simp add: upsert_epoch_def Let_def ex)
  next
    case False
    with that have "\<not> OneRowId (rows ! i)" by auto
    with False that show ?thesis
      by (simp add: upsert_epoch_def Let_def ex nth_append)
  qed
  have db: "SaveEpoch None e db = (None, db\<lparr>epoch := upsert_epoch e (epoch db)\<rparr>)"
    "SaveEpoch (Some err) e db = (Some err, db)"
    by (simp_all add: SaveEpoch_def Exec_def)
  from db len row app show ?thesis by blast
qed

theorem SaveEpoch_frame_witness:
  "upsert_epoch \<lparr>OneRowId = False, BlockHeight = 2, BlockHash = 20, UpdateTime = 200, \<dots> = ''x''\<rparr>
     [\<lparr>OneRowId = True, BlockHeight = 1, BlockHash = 10, UpdateTime = 100, \<dots> = ''kept''\<rparr>]
   ! 0 = \<lparr>OneRowId = True, BlockHeight = 2, BlockHash = 20, UpdateTime = 200, \<dots> = ''kept''\<rparr> \<and>
   upsert_epoch \<lparr>OneRowId = False, BlockHeight = 2, BlockHash = 20, UpdateTime = 200, \<dots> = ''x''\<rparr> []
   = [\<lparr>OneRowId = True, BlockHeight = 2, BlockHash = 20, UpdateTime = 200, \<dots> = ''x''\<rparr>]"
proof -
  let ?e = "\<lparr>OneRowId = False, BlockHeight = 2, BlockHash = 20, UpdateTime = 200, \<dots> = ''x''\<rparr>"
  let ?rows = "[\<lparr>OneRowId = True, BlockHeight = 1, BlockHash = 10, UpdateTime = 100, \<dots> = ''kept''\<rparr>]"
  from SaveEpoch_frame [of undefined undefined undefined ?e ?rows]
  have 1: "upsert_epoch ?e ?rows ! 0
     = \<lparr>OneRowId = True, BlockHeight = 2, BlockHash = 20, UpdateTime = 200, \<dots> = ''kept''\<rparr>"
    by simp
  from SaveEpoch_frame [of undefined undefined undefined ?e "[]"]
  have 2: "upsert_epoch ?e []
     = [\<lparr>OneRowId = True, BlockHeight = 2, BlockHash = 20, UpdateTime = 200, \<dots> = ''x''\<rparr>]"
    by simp
  from 1 2 show ?thesis by simp
qed

subsection \<open>Statistics\<close>

text \<open>
  C10. For every context, every \<^verbatim>\<open>DataStat\<close> value and every database,
  \<^verbatim>\<open>SaveDBStatistics\<close> returns nil and leaves the whole database as it was.
\<close>

theorem SaveDBStatistics_noop:
  "SaveDBStatistics ctx ds db = (None, db)"
  by (simp add: SaveDBStatistics_def)

end
